theory Spec2Isabelle
  imports Complex_Main "HOL-Library.Sublist" "HOL-Library.AList"
begin

section \<open>JSON values as the script sees them\<close>

text \<open>
  \<^verbatim>\<open>scripts/sync_prices.py\<close> works on what \<^verbatim>\<open>json.load\<close> returns: \<^verbatim>\<open>None\<close>,
  \<^verbatim>\<open>bool\<close>, \<^verbatim>\<open>int\<close>, \<^verbatim>\<open>float\<close>, \<^verbatim>\<open>str\<close>, \<^verbatim>\<open>list\<close> and \<^verbatim>\<open>dict\<close> with string keys.

  A finite Python \<^verbatim>\<open>float\<close> is a binary64 number, kept as \<open>FFin neg m k\<close>: the sign
  (\<open>True\<close> is minus), the significand \<open>m\<close> and the exponent \<open>k\<close> of the value
  \<open>m * 2 ^ k\<close>, in the one form the format has for each value: \<open>m < 2 ^ 53\<close>,
  \<open>-1074 \<le> k \<le> 971\<close>, and \<open>2 ^ 52 \<le> m\<close> unless \<open>k = -1074\<close>; zero is \<open>FFin neg 0 0\<close>,
  so that \<^verbatim>\<open>0.0\<close> and \<^verbatim>\<open>-0.0\<close> are two values.
  A \<^verbatim>\<open>dict\<close> is an association list in insertion order, whose keys are distinct in
  every dictionary Python builds. Strings are byte strings (UTF-8): the script only
  compares them, tests prefixes and tests substrings, which UTF-8 preserves.

  Values are immutable here. The script mutates records in place, but every record it
  handles comes out of \<^verbatim>\<open>json.load\<close> or \<^verbatim>\<open>copy.deepcopy\<close>, which return no shared
  sub-objects, so that a record is reached through one key only and state passing on
  values is what the code does.
\<close>

datatype pyfloat = FFin bool int int | FInf bool | FNaN

datatype number = NInt int | NFloat pyfloat

datatype json =
    JNull
  | JBool bool
  | JNum number
  | JStr string
  | JList "json list"
  | JDict "(string \<times> json) list"

type_synonym record_t = "(string \<times> json) list"
type_synonym catalog = "(string \<times> json) list"

subsection \<open>Dictionary operations\<close>

text \<open>\<^verbatim>\<open>k in d\<close>, \<^verbatim>\<open>d.get(k)\<close> and \<^verbatim>\<open>d.get(k, default)\<close>.\<close>

definition dict_has :: "(string \<times> 'v) list \<Rightarrow> string \<Rightarrow> bool" where
  "dict_has d k = (map_of d k \<noteq> None)"

definition dict_get :: "(string \<times> 'v) list \<Rightarrow> string \<Rightarrow> 'v option" where
  "dict_get d k = map_of d k"

text \<open>
  \<^verbatim>\<open>d[k] = v\<close>: an existing key keeps its place and takes the new value, a new key goes
  to the end. This is \<^const>\<open>AList.update\<close>.
\<close>

definition dict_set :: "(string \<times> 'v) list \<Rightarrow> string \<Rightarrow> 'v \<Rightarrow> (string \<times> 'v) list" where
  "dict_set d k v = AList.update k v d"

subsection \<open>Python equality on JSON values\<close>

text \<open>
  \<^verbatim>\<open>==\<close> on numbers compares the exact values, an \<^verbatim>\<open>int\<close> and a \<^verbatim>\<open>float\<close> alike;
  \<^verbatim>\<open>nan\<close> equals nothing.
\<close>

definition float_value :: "bool \<Rightarrow> int \<Rightarrow> int \<Rightarrow> rat" where
  "float_value neg m k =
     (if neg then - 1 else 1) * of_int m * (if 0 \<le> k then 2 ^ nat k else 1 / 2 ^ nat (- k))"

fun num_eq :: "number \<Rightarrow> number \<Rightarrow> bool" where
  "num_eq (NInt a) (NInt b) = (a = b)"
| "num_eq (NInt a) (NFloat (FFin s m k)) = (of_int a = float_value s m k)"
| "num_eq (NFloat (FFin s m k)) (NInt b) = (float_value s m k = of_int b)"
| "num_eq (NFloat (FFin s m k)) (NFloat (FFin t n j)) = (float_value s m k = float_value t n j)"
| "num_eq (NFloat (FInf s)) (NFloat (FInf t)) = (s = t)"
| "num_eq _ _ = False"

definition bool_num :: "bool \<Rightarrow> number" where
  "bool_num b = NInt (if b then 1 else 0)"

text \<open>
  Inside a \<^verbatim>\<open>list\<close> or \<^verbatim>\<open>dict\<close>, Python compares two items by identity first and by
  \<^verbatim>\<open>==\<close> second. Values parsed from two documents are different objects, with one
  exception: the \<^verbatim>\<open>json\<close> module returns the single object \<^verbatim>\<open>json.decoder.NaN\<close> for
  every \<^verbatim>\<open>NaN\<close> literal. So \<open>py_eq\<close>, the comparison of items, takes two \<^verbatim>\<open>nan\<close> as
  equal. \<^verbatim>\<open>bool\<close> is a subclass of \<^verbatim>\<open>int\<close>: \<^verbatim>\<open>True == 1\<close>. Two dictionaries are equal
  when they have the same number of entries and each key of the first is in the second
  with an equal value, whatever the insertion order.
\<close>

fun py_eq :: "json \<Rightarrow> json \<Rightarrow> bool" where
  "py_eq JNull JNull = True"
| "py_eq (JBool a) (JBool b) = (a = b)"
| "py_eq (JBool a) (JNum n) = num_eq (bool_num a) n"
| "py_eq (JNum n) (JBool b) = num_eq n (bool_num b)"
| "py_eq (JNum a) (JNum b) = ((a = NFloat FNaN \<and> b = NFloat FNaN) \<or> num_eq a b)"
| "py_eq (JStr a) (JStr b) = (a = b)"
| "py_eq (JList xs) (JList ys) = list_all2 py_eq xs ys"
| "py_eq (JDict a) (JDict b) =
     (length a = length b \<and>
      list_all (\<lambda>(k, v). case map_of b k of None \<Rightarrow> False | Some w \<Rightarrow> py_eq v w) a)"
| "py_eq _ _ = False"

text \<open>
  \<^verbatim>\<open>a != b\<close> at the top level, as \<^verbatim>\<open>merge_models\<close> writes it: the operands themselves
  are compared by value, so two \<^verbatim>\<open>nan\<close> differ there.
\<close>

definition py_ne :: "json \<Rightarrow> json \<Rightarrow> bool" where
  "py_ne a b =
     (if a = JNum (NFloat FNaN) \<and> b = JNum (NFloat FNaN) then True else \<not> py_eq a b)"

section \<open>Configuration\<close>

text \<open>
  The configuration is the JSON object of \<^verbatim>\<open>config.json\<close>, typed as its documented
  schema: a field read with \<^verbatim>\<open>config.get\<close> is optional, one read with
  \<^verbatim>\<open>config[...]\<close> is required. \<^verbatim>\<open>load_config\<close> has checked the required keys.
\<close>

record alias_cfg =
  source :: "string option"

record auto_fill_cfg =
  model_prefix :: "string option"
  ratio :: "number option"

record config =
  sync_mode :: string
  prefix_filters :: "string list option"
  exclude_patterns :: "string list option"
  update_existing :: "bool option"
  aliases :: "(string \<times> alias_cfg) list option"
  cache_1hr_auto_fill :: "auto_fill_cfg option"

section \<open>Filtering\<close>

text \<open>
  \<^verbatim>\<open>filter_upstream\<close> (lines 114-130). \<^verbatim>\<open>pat in key\<close> is \<^const>\<open>sublist\<close>,
  \<^verbatim>\<open>key.startswith(prefixes)\<close> with a tuple is \<^const>\<open>prefix\<close> of one of its members,
  \<^verbatim>\<open>any\<close> is \<^const>\<open>list_ex\<close>, and a tuple is true when it is not empty
  (\<open>prefs\<close> is the source's \<^verbatim>\<open>prefixes\<close>, a name the list library has taken).
\<close>

definition keep_key :: "string list \<Rightarrow> string list \<Rightarrow> string \<Rightarrow> bool" where
  "keep_key prefs excludes key =
     (if list_ex (\<lambda>pat. sublist pat key) excludes then False
      else if prefs \<noteq> [] \<and> \<not> list_ex (\<lambda>p. prefix p key) prefs then False
      else True)"

fun filter_loop :: "string list \<Rightarrow> string list \<Rightarrow> catalog \<Rightarrow> catalog \<Rightarrow> catalog" where
  "filter_loop prefs excludes [] filtered = filtered"
| "filter_loop prefs excludes ((key, v) # rest) filtered =
     (if keep_key prefs excludes key
      then filter_loop prefs excludes rest (dict_set filtered key v)
      else filter_loop prefs excludes rest filtered)"

text \<open>\<^verbatim>\<open>config.get("prefix_filters", [])\<close> and \<^verbatim>\<open>config.get("exclude_patterns", [])\<close>.\<close>

definition cfg_prefixes :: "'a config_scheme \<Rightarrow> string list" where
  "cfg_prefixes cfg = (case prefix_filters cfg of None \<Rightarrow> [] | Some ps \<Rightarrow> ps)"

definition cfg_excludes :: "'a config_scheme \<Rightarrow> string list" where
  "cfg_excludes cfg = (case exclude_patterns cfg of None \<Rightarrow> [] | Some es \<Rightarrow> es)"

definition filter_upstream :: "catalog \<Rightarrow> 'a config_scheme \<Rightarrow> catalog" where
  "filter_upstream data cfg =
     (let prefs = cfg_prefixes cfg;
          excludes = cfg_excludes cfg
      in filter_loop prefs excludes data [])"

section \<open>Merge\<close>

record stats =
  added :: nat
  updated :: nat
  unchanged :: nat
  total_upstream :: nat

text \<open>
  The body of the additive loop of \<^verbatim>\<open>merge_models\<close> (lines 158-168), on the pair of
  \<^verbatim>\<open>merged\<close> and \<^verbatim>\<open>stats\<close>, and the loop over the items of \<^verbatim>\<open>filtered\<close>.
\<close>

fun merge_step :: "bool \<Rightarrow> string \<times> json \<Rightarrow> catalog \<times> stats \<Rightarrow> catalog \<times> stats" where
  "merge_step upd (key, v) (merged, st) =
     (case dict_get merged key of
        None \<Rightarrow> (dict_set merged key v, st\<lparr>added := added st + 1\<rparr>)
      | Some old \<Rightarrow>
          if upd then
            (if py_ne old v
             then (dict_set merged key v, st\<lparr>updated := updated st + 1\<rparr>)
             else (merged, st\<lparr>unchanged := unchanged st + 1\<rparr>))
          else (merged, st\<lparr>unchanged := unchanged st + 1\<rparr>))"

fun merge_loop :: "bool \<Rightarrow> catalog \<Rightarrow> catalog \<times> stats \<Rightarrow> catalog \<times> stats" where
  "merge_loop upd [] ms = ms"
| "merge_loop upd (item # rest) ms = merge_loop upd rest (merge_step upd item ms)"

text \<open>\<^verbatim>\<open>merge_models\<close> (lines 138-170).\<close>

definition merge_models :: "catalog \<Rightarrow> catalog \<Rightarrow> string \<Rightarrow> bool \<Rightarrow> catalog \<times> stats" where
  "merge_models existing filtered mode upd =
     (let st = \<lparr>added = 0, updated = 0, unchanged = 0, total_upstream = length filtered\<rparr>
      in if mode = ''full'' then (filtered, st\<lparr>added := length filtered\<rparr>)
         else merge_loop upd filtered (existing, st))"

section \<open>Aliases\<close>

text \<open>
  What \<^verbatim>\<open>apply_aliases\<close> logs: a warning for an alias it skips, an information line
  for an alias it applies, each with the alias key and the source key.
\<close>

datatype log_line = Warning_skipped string string | Info_applied string string

text \<open>
  \<^verbatim>\<open>copy.deepcopy\<close> returns a value equal to its argument that shares nothing with it.
  On immutable values that is the value itself.
\<close>

definition deepcopy :: "json \<Rightarrow> json" where
  "deepcopy v = v"

text \<open>\<^verbatim>\<open>alias_cfg.get("source", "")\<close>.\<close>

definition alias_source :: "'a alias_cfg_scheme \<Rightarrow> string" where
  "alias_source a = (case source a of None \<Rightarrow> [] | Some s \<Rightarrow> s)"

text \<open>
  The body of the loop of \<^verbatim>\<open>apply_aliases\<close> (lines 181-190), on the pair of the
  catalog and the log, and the loop over the items of \<^verbatim>\<open>aliases\<close>.
\<close>

fun alias_step ::
  "string \<times> 'a alias_cfg_scheme \<Rightarrow> catalog \<times> log_line list \<Rightarrow> catalog \<times> log_line list" where
  "alias_step (alias_key, a) (data, logged) =
     (let src = alias_source a in
      case dict_get data src of
        None \<Rightarrow> (data, logged @ [Warning_skipped alias_key src])
      | Some v \<Rightarrow> (dict_set data alias_key (deepcopy v), logged @ [Info_applied alias_key src]))"

fun alias_loop ::
  "(string \<times> 'a alias_cfg_scheme) list \<Rightarrow> catalog \<times> log_line list \<Rightarrow> catalog \<times> log_line list" where
  "alias_loop [] dl = dl"
| "alias_loop (item # rest) dl = alias_loop rest (alias_step item dl)"

definition apply_aliases ::
  "catalog \<Rightarrow> (string \<times> 'a alias_cfg_scheme) list \<Rightarrow> catalog \<times> log_line list" where
  "apply_aliases data als = alias_loop als (data, [])"

section \<open>Numbers: \<^verbatim>\<open>float\<close>, \<^verbatim>\<open>str\<close> and \<^verbatim>\<open>Decimal\<close>\<close>

text \<open>
  The filler computes \<^verbatim>\<open>float(Decimal(str(cost_5m)) * Decimal(str(ratio)))\<close>. The four
  library operations are modelled here in integer arithmetic. A positive rational is a
  fraction \<open>a / b\<close> of two positive integers.
\<close>

text \<open>
  The number of digits of a positive integer \<open>n\<close> in base \<open>b\<close>, and, for a fraction
  \<open>a / b\<close>, the exponent \<open>e\<close> with \<open>base ^ e \<le> a / b < base ^ (e + 1)\<close>: the digit counts
  of \<open>a\<close> and of \<open>b\<close> leave two candidates.
\<close>

function digit_count :: "int \<Rightarrow> int \<Rightarrow> int" where
  "digit_count b n = (if 2 \<le> b \<and> b \<le> n then digit_count b (n div b) + 1 else 1)"
  by pat_completeness auto
termination
  by (relation "measure (\<lambda>(b, n). nat n)") (auto simp: int_div_less_self)

definition floor_log :: "int \<Rightarrow> int \<Rightarrow> int \<Rightarrow> int" where
  "floor_log base a b =
     (let e = digit_count base a - digit_count base b
      in if (if 0 \<le> e then b * base ^ nat e \<le> a else b \<le> a * base ^ nat (- e))
         then e else e - 1)"

text \<open>The integer nearest to \<open>a / b\<close>, a tie going to the even one.\<close>

definition round_half_even :: "int \<Rightarrow> int \<Rightarrow> int" where
  "round_half_even a b =
     (let f = a div b; r = a mod b
      in if 2 * r < b then f
         else if b < 2 * r then f + 1
         else if even f then f else f + 1)"

text \<open>\<open>(a / b) / base ^ x\<close> as a fraction.\<close>

definition scale_down :: "int \<Rightarrow> int \<Rightarrow> int \<Rightarrow> int \<Rightarrow> int \<times> int" where
  "scale_down base a b x =
     (if 0 \<le> x then (a, b * base ^ nat x) else (a * base ^ nat (- x), b))"

text \<open>
  The binary64 number nearest to \<open>a / b\<close>, a tie going to the even significand, as the
  pair of its significand and exponent: 53 bits of significand, the exponent of the
  leading bit not below \<open>-1022\<close> (smaller numbers are subnormal, in units of
  \<open>2 ^ -1074\<close>) and not above \<open>1023\<close>; \<open>None\<close> is the overflow to infinity.
\<close>

definition round_binary64 :: "int \<Rightarrow> int \<Rightarrow> (int \<times> int) option" where
  "round_binary64 a b =
     (let e = max (floor_log 2 a b) (- 1022);
          k = e - 52;
          (a', b') = scale_down 2 a b k;
          m = round_half_even a' b'
      in if 1023 < e then None
         else if m = 9007199254740992
         then (if 1023 < e + 1 then None else Some (4503599627370496, k + 1))
         else Some (m, k))"

text \<open>
  \<^verbatim>\<open>float(s)\<close> for a decimal numeral \<open>s\<close> of sign \<open>neg\<close> and magnitude \<open>c * 10 ^ e\<close>,
  which is also what \<^verbatim>\<open>json.load\<close> returns for a numeral with a fraction or an
  exponent.
\<close>

definition decimal_fraction :: "int \<Rightarrow> int \<Rightarrow> int \<times> int" where
  "decimal_fraction c e = (if 0 \<le> e then (c * 10 ^ nat e, 1) else (c, 10 ^ nat (- e)))"

definition nearest_float :: "bool \<Rightarrow> int \<Rightarrow> int \<Rightarrow> pyfloat" where
  "nearest_float neg c e =
     (if c = 0 then FFin neg 0 0
      else let (a, b) = decimal_fraction c e in
           case round_binary64 a b of
             None \<Rightarrow> FInf neg
           | Some (m, k) \<Rightarrow> if m = 0 then FFin neg 0 0 else FFin neg m k)"

text \<open>
  \<^verbatim>\<open>str\<close> of a finite non-zero float prints the shortest decimal numeral that
  \<^verbatim>\<open>float\<close> reads back as the same float, the nearest one when several have that
  length; seventeen digits always suffice. With \<open>n\<close> significant digits the only
  candidates are the two neighbours \<open>lo * 10 ^ x\<close> and \<open>hi * 10 ^ x\<close> of the value on the
  grid of \<open>n\<close>-digit decimals. The numeral is modelled by its value \<open>c * 10 ^ x\<close>;
  zeros that \<^verbatim>\<open>str\<close> appends (as in \<^verbatim>\<open>2.0\<close>) change the exponent a \<^verbatim>\<open>Decimal\<close> is
  written with, which the arithmetic below rounds away and \<^verbatim>\<open>float\<close> cannot see.
\<close>

definition float_fraction :: "int \<Rightarrow> int \<Rightarrow> int \<times> int" where
  "float_fraction m k = (if 0 \<le> k then (m * 2 ^ nat k, 1) else (m, 2 ^ nat (- k)))"

definition reads_back :: "int \<Rightarrow> int \<Rightarrow> int \<Rightarrow> int \<Rightarrow> bool" where
  "reads_back c x m k =
     (let (a, b) = decimal_fraction c x in round_binary64 a b = Some (m, k))"

definition repr_digits :: "int \<Rightarrow> int \<Rightarrow> nat \<Rightarrow> (int \<times> int) option" where
  "repr_digits m k n =
     (let (a, b) = float_fraction m k;
          x = floor_log 10 a b - int n + 1;
          (a', b') = scale_down 10 a b x;
          lo = a' div b';
          hi = lo + 1;
          ok_lo = reads_back lo x m k;
          ok_hi = reads_back hi x m k
      in if ok_lo \<and> ok_hi then Some (if 2 * (a' mod b') \<le> b' then (lo, x) else (hi, x))
         else if ok_lo then Some (lo, x)
         else if ok_hi then Some (hi, x)
         else None)"

fun shortest_repr :: "int \<Rightarrow> int \<Rightarrow> nat \<Rightarrow> nat \<Rightarrow> int \<times> int" where
  "shortest_repr m k n 0 = (if 0 \<le> k then (m * 2 ^ nat k, 0) else (m * 5 ^ nat (- k), k))"
| "shortest_repr m k n (Suc fuel) =
     (case repr_digits m k n of Some ce \<Rightarrow> ce | None \<Rightarrow> shortest_repr m k (Suc n) fuel)"

definition float_repr :: "int \<Rightarrow> int \<Rightarrow> int \<times> int" where
  "float_repr m k = shortest_repr m k 1 17"

text \<open>
  A \<^verbatim>\<open>Decimal\<close> is finite (\<open>DFin neg c e\<close>: the sign, the coefficient and the exponent
  of the value \<open>c * 10 ^ e\<close>), infinite, a quiet NaN or a signaling NaN.
\<close>

datatype pydec = DFin bool int int | DInf bool | DQNaN | DSNaN

datatype error = InvalidOperation | Overflow | ValueError | OSError

text \<open>\<^verbatim>\<open>Decimal(str(x))\<close> for a number \<open>x\<close>; it never raises.\<close>

fun decimal_of_number :: "number \<Rightarrow> pydec" where
  "decimal_of_number (NInt i) = DFin (i < 0) \<bar>i\<bar> 0"
| "decimal_of_number (NFloat (FFin neg m k)) =
     (if m = 0 then DFin neg 0 0 else case float_repr m k of (c, e) \<Rightarrow> DFin neg c e)"
| "decimal_of_number (NFloat (FInf neg)) = DInf neg"
| "decimal_of_number (NFloat FNaN) = DQNaN"

text \<open>
  \<^verbatim>\<open>Decimal(str(v))\<close> for a JSON value \<open>v\<close>. \<^verbatim>\<open>str\<close> of \<^verbatim>\<open>None\<close>, of a \<^verbatim>\<open>bool\<close>, of a
  \<^verbatim>\<open>list\<close> and of a \<^verbatim>\<open>dict\<close> is no numeral, and \<^verbatim>\<open>Decimal\<close> raises
  \<^verbatim>\<open>InvalidOperation\<close>. For a \<^verbatim>\<open>str\<close> the outcome is that of the library's parser of
  numerals, the parameter \<open>parse\<close>: \<open>None\<close> when it raises.
\<close>

fun decimal_of_json :: "(string \<Rightarrow> pydec option) \<Rightarrow> json \<Rightarrow> error + pydec" where
  "decimal_of_json parse (JNum x) = Inr (decimal_of_number x)"
| "decimal_of_json parse (JStr s) =
     (case parse s of None \<Rightarrow> Inl InvalidOperation | Some d \<Rightarrow> Inr d)"
| "decimal_of_json parse _ = Inl InvalidOperation"

text \<open>
  The rounding of a finite non-zero result \<open>c * 10 ^ e\<close> in the default context
  (\<^verbatim>\<open>Decimal._fix\<close>): precision 28, ties to even, \<open>Emax = 999999\<close>, so that the last
  digit of a full coefficient has an exponent up to \<open>Etop = 999972\<close>, and
  \<open>Etiny = -1000026\<close> the least exponent of a last digit. \<^verbatim>\<open>Overflow\<close> is trapped: it
  raises.
\<close>

definition dec_fix :: "bool \<Rightarrow> int \<Rightarrow> int \<Rightarrow> error + pydec" where
  "dec_fix neg c e =
     (let exp_min = digit_count 10 c + e - 28 in
      if 999972 < exp_min then Inl Overflow
      else
        let exp_min = max exp_min (- 1000026) in
        if e < exp_min then
          (let coeff = round_half_even c (10 ^ nat (exp_min - e)) in
           if 28 < digit_count 10 coeff
           then (if 999972 < exp_min + 1 then Inl Overflow
                 else Inr (DFin neg (coeff div 10) (exp_min + 1)))
           else Inr (DFin neg coeff exp_min))
        else Inr (DFin neg c e))"

text \<open>
  \<^verbatim>\<open>Decimal.__mul__\<close> in the default context: a signaling NaN raises, a quiet NaN
  propagates, infinity times zero raises, a zero product keeps an exponent within
  the limits, and another finite product is rounded.
\<close>

fun dec_mul :: "pydec \<Rightarrow> pydec \<Rightarrow> error + pydec" where
  "dec_mul DSNaN _ = Inl InvalidOperation"
| "dec_mul _ DSNaN = Inl InvalidOperation"
| "dec_mul DQNaN _ = Inr DQNaN"
| "dec_mul _ DQNaN = Inr DQNaN"
| "dec_mul (DInf s) (DInf t) = Inr (DInf (s \<noteq> t))"
| "dec_mul (DInf s) (DFin t c e) =
     (if c = 0 then Inl InvalidOperation else Inr (DInf (s \<noteq> t)))"
| "dec_mul (DFin s c e) (DInf t) =
     (if c = 0 then Inl InvalidOperation else Inr (DInf (s \<noteq> t)))"
| "dec_mul (DFin s c e) (DFin t d f) =
     (if c = 0 \<or> d = 0 then Inr (DFin (s \<noteq> t) 0 (min (max (e + f) (- 1000026)) 999999))
      else dec_fix (s \<noteq> t) (c * d) (e + f))"

text \<open>\<^verbatim>\<open>float(d)\<close> for a \<^verbatim>\<open>Decimal\<close>.\<close>

fun float_of_decimal :: "pydec \<Rightarrow> error + pyfloat" where
  "float_of_decimal (DFin neg c e) = Inr (nearest_float neg c e)"
| "float_of_decimal (DInf neg) = Inr (FInf neg)"
| "float_of_decimal DQNaN = Inr FNaN"
| "float_of_decimal DSNaN = Inl ValueError"

text \<open>Line 230-232: \<^verbatim>\<open>float(Decimal(str(cost_5m)) * Decimal(str(ratio)))\<close>.\<close>

definition scaled_cost :: "(string \<Rightarrow> pydec option) \<Rightarrow> json \<Rightarrow> number \<Rightarrow> error + pyfloat" where
  "scaled_cost parse cost_5m ratio_v =
     (case decimal_of_json parse cost_5m of
        Inl e \<Rightarrow> Inl e
      | Inr a \<Rightarrow>
          (case dec_mul a (decimal_of_number ratio_v) of
             Inl e \<Rightarrow> Inl e
           | Inr p \<Rightarrow> float_of_decimal p))"

section \<open>Derived-field filler\<close>

abbreviation cost_field :: string where
  "cost_field \<equiv> ''cache_creation_input_token_cost''"

abbreviation cost_1hr_field :: string where
  "cost_1hr_field \<equiv> ''cache_creation_input_token_cost_above_1hr''"

text \<open>\<^verbatim>\<open>value.get(k)\<close> on a record: \<^verbatim>\<open>None\<close>, which is JSON's null, for a missing key.\<close>

definition json_get :: "record_t \<Rightarrow> string \<Rightarrow> json" where
  "json_get r k = (case dict_get r k of None \<Rightarrow> JNull | Some v \<Rightarrow> v)"

text \<open>
  The body of the loop of \<^verbatim>\<open>fill_cache_1hr_pricing\<close> (lines 221-234) for one item:
  \<open>Inr None\<close> is \<^verbatim>\<open>continue\<close>, \<open>Inr (Some v)\<close> is the record after the assignment, and
  \<open>Inl e\<close> is an exception of the arithmetic, which ends the script.
\<close>

definition fill_item ::
  "(string \<Rightarrow> pydec option) \<Rightarrow> string \<Rightarrow> number \<Rightarrow> string \<Rightarrow> json \<Rightarrow> error + json option" where
  "fill_item parse pfx ratio_v key v =
     (if \<not> prefix pfx key then Inr None
      else case v of
        JDict r \<Rightarrow>
          (let cost_5m = json_get r cost_field in
           if cost_5m = JNull then Inr None
           else if json_get r cost_1hr_field \<noteq> JNull then Inr None
           else case scaled_cost parse cost_5m ratio_v of
                  Inl e \<Rightarrow> Inl e
                | Inr x \<Rightarrow> Inr (Some (JDict (dict_set r cost_1hr_field (JNum (NFloat x))))))
      | _ \<Rightarrow> Inr None)"

text \<open>The loop over \<^verbatim>\<open>data.items()\<close>, with the counter.\<close>

fun fill_loop ::
  "(string \<Rightarrow> pydec option) \<Rightarrow> string \<Rightarrow> number \<Rightarrow> catalog \<Rightarrow> nat \<Rightarrow> error + catalog \<times> nat" where
  "fill_loop parse pfx ratio_v [] count = Inr ([], count)"
| "fill_loop parse pfx ratio_v ((key, v) # rest) count =
     (case fill_item parse pfx ratio_v key v of
        Inl e \<Rightarrow> Inl e
      | Inr None \<Rightarrow>
          (case fill_loop parse pfx ratio_v rest count of
             Inl e \<Rightarrow> Inl e
           | Inr (rest', n) \<Rightarrow> Inr ((key, v) # rest', n))
      | Inr (Some v') \<Rightarrow>
          (case fill_loop parse pfx ratio_v rest (count + 1) of
             Inl e \<Rightarrow> Inl e
           | Inr (rest', n) \<Rightarrow> Inr ((key, v') # rest', n)))"

text \<open>
  What one pass of the loop does to an item \<open>p\<close>, giving \<open>p'\<close>: the key stays, and
  the value stays on \<^verbatim>\<open>continue\<close> or is the record after the assignment.
\<close>

definition item_pass ::
  "(string \<Rightarrow> pydec option) \<Rightarrow> string \<Rightarrow> number \<Rightarrow> string \<times> json \<Rightarrow> string \<times> json \<Rightarrow> bool" where
  "item_pass parse pfx ratio_v p p' =
     (fst p' = fst p \<and>
      ((fill_item parse pfx ratio_v (fst p) (snd p) = Inr None \<and> snd p' = snd p)
       \<or> fill_item parse pfx ratio_v (fst p) (snd p) = Inr (Some (snd p'))))"

text \<open>
  The rule \<^verbatim>\<open>config.get("cache_1hr_auto_fill")\<close> is false when it is missing and when
  it is the empty object, which in the typed record is the rule with neither field.
  \<^verbatim>\<open>auto_fill_cfg.get("model_prefix", "claude-")\<close> and \<^verbatim>\<open>auto_fill_cfg.get("ratio", 1.6)\<close>
  follow.
\<close>

definition rule_prefix :: "'a auto_fill_cfg_scheme \<Rightarrow> string" where
  "rule_prefix af = (case model_prefix af of None \<Rightarrow> ''claude-'' | Some p \<Rightarrow> p)"

definition rule_ratio :: "'a auto_fill_cfg_scheme \<Rightarrow> number" where
  "rule_ratio af = (case ratio af of None \<Rightarrow> NFloat (nearest_float False 16 (- 1)) | Some r \<Rightarrow> r)"

definition rule_active :: "'a config_scheme \<Rightarrow> bool" where
  "rule_active cfg =
     (case cache_1hr_auto_fill cfg of
        None \<Rightarrow> False
      | Some af \<Rightarrow> \<not> (model_prefix af = None \<and> ratio af = None))"

text \<open>
  \<^verbatim>\<open>fill_cache_1hr_pricing\<close> (lines 206-236). The script mutates the records of
  \<^verbatim>\<open>data\<close> and returns the counter; the model returns the catalog after the call and
  the counter.
\<close>

definition fill_cache_1hr_pricing ::
  "(string \<Rightarrow> pydec option) \<Rightarrow> catalog \<Rightarrow> config \<Rightarrow> error + catalog \<times> nat" where
  "fill_cache_1hr_pricing parse data cfg =
     (case cache_1hr_auto_fill cfg of
        None \<Rightarrow> Inr (data, 0)
      | Some af \<Rightarrow>
          if model_prefix af = None \<and> ratio af = None then Inr (data, 0)
          else fill_loop parse (rule_prefix af) (rule_ratio af) data 0)"

section \<open>Output\<close>

text \<open>
  The files of the repository are a map from paths to contents, with the paths that
  can be opened for writing; \<^verbatim>\<open>open\<close> raises \<^verbatim>\<open>OSError\<close> on the others.
\<close>

record filesystem =
  contents :: "string \<rightharpoonup> string"
  writable :: "string \<Rightarrow> bool"

definition write_file :: "string \<Rightarrow> string \<Rightarrow> filesystem \<Rightarrow> error + filesystem" where
  "write_file path bytes fs =
     (if writable fs path then Inr (fs\<lparr>contents := (contents fs)(path \<mapsto> bytes)\<rparr>)
      else Inl OSError)"

text \<open>
  \<^verbatim>\<open>write_output\<close> (lines 249-268). The serializer
  \<^verbatim>\<open>json.dumps(data, sort_keys=True, indent=2)\<close> and the digest
  \<^verbatim>\<open>hashlib.sha256(b).hexdigest()\<close> of \<^verbatim>\<open>compute_hash\<close> are library functions, the
  parameters \<open>dumps\<close> and \<open>sha256_hex\<close>. The serializer escapes every character
  outside ASCII, so encoding its output changes nothing. The result is the value
  returned or the exception raised, with the files after the call.
\<close>

definition compute_hash :: "(string \<Rightarrow> string) \<Rightarrow> string \<Rightarrow> string" where
  "compute_hash sha256_hex json_bytes = sha256_hex json_bytes"

definition write_output ::
  "(catalog \<Rightarrow> string) \<Rightarrow> (string \<Rightarrow> string) \<Rightarrow> catalog \<Rightarrow> string \<Rightarrow> string \<Rightarrow> string \<Rightarrow>
   filesystem \<Rightarrow> (error + bool \<times> string) \<times> filesystem" where
  "write_output dumps sha256_hex data json_path hash_path old_hash fs =
     (let json_bytes = dumps data @ [CHR 0x0A];
          new_hash = compute_hash sha256_hex json_bytes
      in if new_hash = old_hash then (Inr (False, new_hash), fs)
         else case write_file json_path json_bytes fs of
                Inl e \<Rightarrow> (Inl e, fs)
              | Inr fs1 \<Rightarrow>
                  (case write_file hash_path (new_hash @ [CHR 0x0A]) fs1 of
                     Inl e \<Rightarrow> (Inl e, fs1)
                   | Inr fs2 \<Rightarrow> (Inr (True, new_hash), fs2)))"

section \<open>Examples of the specification\<close>

text \<open>
  The end-to-end example: the configuration, the existing catalog and the upstream
  catalog. \<^verbatim>\<open>0.5\<close> is the float \<open>2 ^ 52 * 2 ^ -53\<close>.
\<close>

definition example_config :: config where
  "example_config =
     \<lparr>sync_mode = ''additive'', prefix_filters = Some [''gpt-''], exclude_patterns = None,
      update_existing = Some True, aliases = None, cache_1hr_auto_fill = None\<rparr>"

definition example_existing :: catalog where
  "example_existing = [(''gpt-4'', JDict [(''cost'', JNum (NInt 1))])]"

definition example_upstream :: catalog where
  "example_upstream =
     [(''gpt-4'', JDict [(''cost'', JNum (NInt 2))]),
      (''gpt-3'', JDict [(''cost'', JNum (NFloat (FFin False 4503599627370496 (- 53))))]),
      (''claude-x'', JDict [(''cost'', JNum (NInt 9))])]"

text \<open>
  The derived-field example: the rule \<^verbatim>\<open>{"model_prefix": "claude-", "ratio": 1.6}\<close>,
  where \<^verbatim>\<open>1.6\<close> is the float that \<^verbatim>\<open>json.load\<close> reads, and the float of \<^verbatim>\<open>0.30\<close>.
\<close>

definition example_rule_config :: config where
  "example_rule_config =
     \<lparr>sync_mode = ''additive'', prefix_filters = Some [], exclude_patterns = None,
      update_existing = None, aliases = None,
      cache_1hr_auto_fill =
        Some \<lparr>model_prefix = Some ''claude-'', ratio = Some (NFloat (nearest_float False 16 (- 1)))\<rparr>\<rparr>"

definition cost_030 :: json where
  "cost_030 = JNum (NFloat (nearest_float False 30 (- 2)))"

definition cost_048 :: json where
  "cost_048 = JNum (NFloat (nearest_float False 48 (- 2)))"

text \<open>A parser of numerals that accepts nothing, and files for the writer.\<close>

definition no_parse :: "string \<Rightarrow> pydec option" where
  "no_parse s = None"

definition example_files :: filesystem where
  "example_files = \<lparr>contents = Map.empty, writable = (\<lambda>path. True)\<rparr>"

text \<open>Steps 4 and 5 of \<^verbatim>\<open>main\<close> (lines 300-308): the filter, then the merge.\<close>

definition filter_then_merge :: "config \<Rightarrow> catalog \<Rightarrow> catalog \<Rightarrow> catalog \<times> catalog \<times> stats" where
  "filter_then_merge cfg existing upstream =
     (let filtered = filter_upstream upstream cfg;
          (merged, st) = merge_models existing filtered (sync_mode cfg)
                           (case update_existing cfg of None \<Rightarrow> False | Some b \<Rightarrow> b)
      in (filtered, merged, st))"

section \<open>Properties\<close>

subsection \<open>Dictionaries\<close>

lemma update_fresh: "k \<notin> fst ` set al \<Longrightarrow> AList.update k v al = al @ [(k, v)]"
  by (induction al) auto

lemma dict_has_keys: "dict_has d k \<longleftrightarrow> k \<in> fst ` set d"
  by (simp add: dict_has_def map_of_eq_None_iff)

lemma dict_get_filter_keys:
  "P k \<Longrightarrow> dict_get (filter (\<lambda>(key, v). P key) d) k = dict_get d k"
  by (induction d) (auto simp: dict_get_def)

lemma dict_has_filter_keys:
  "dict_has (filter (\<lambda>(key, v). P key) d) k \<longleftrightarrow> dict_has d k \<and> P k"
  by (induction d) (auto simp: dict_has_def)

subsection \<open>Filter\<close>

lemma keep_key_iff:
  "keep_key ps es key \<longleftrightarrow>
     \<not> (\<exists>pat \<in> set es. sublist pat key) \<and> (ps = [] \<or> (\<exists>p \<in> set ps. prefix p key))"
  by (auto simp: keep_key_def list_ex_iff)

lemma filter_loop_append:
  "distinct (map fst data) \<Longrightarrow> fst ` set data \<inter> fst ` set acc = {} \<Longrightarrow>
   filter_loop ps es data acc = acc @ filter (\<lambda>(key, v). keep_key ps es key) data"
proof (induction data arbitrary: acc)
  case Nil
  then show ?case by simp
next
  case (Cons kv data)
  obtain k v where kv: "kv = (k, v)" by (cases kv)
  from Cons.prems have fresh: "k \<notin> fst ` set acc" and d: "distinct (map fst data)"
    and nk: "k \<notin> fst ` set data" and disj: "fst ` set data \<inter> fst ` set acc = {}"
    by (auto simp: kv)
  show ?case
  proof (cases "keep_key ps es k")
    case True
    have "fst ` set data \<inter> fst ` set (dict_set acc k v) = {}"
      using disj nk by (auto simp: dict_set_def update_fresh [OF fresh])
    from Cons.IH [OF d this] True show ?thesis
      by (simp add: kv dict_set_def update_fresh [OF fresh])
  next
    case False
    from Cons.IH [OF d disj] False show ?thesis by (simp add: kv)
  qed
qed

lemma filter_upstream_eq:
  "distinct (map fst data) \<Longrightarrow>
   filter_upstream data cfg =
     filter (\<lambda>(key, v). keep_key (cfg_prefixes cfg) (cfg_excludes cfg) key) data"
  by (simp add: filter_upstream_def filter_loop_append)

text \<open>
  C5. Of an upstream catalog (a dictionary: its keys are distinct), the filter keeps
  the entries, in their order and with their values, whose key contains no exclude
  pattern and, when there are prefixes, starts with one of them; a key with an exclude
  pattern is dropped whatever it starts with.
\<close>

theorem filter_upstream_policy:
  assumes "distinct (map fst data)"
  shows "(\<forall>key. dict_has (filter_upstream data cfg) key \<longleftrightarrow>
            dict_has data key
            \<and> \<not> (\<exists>pat \<in> set (cfg_excludes cfg). sublist pat key)
            \<and> (cfg_prefixes cfg = [] \<or> (\<exists>p \<in> set (cfg_prefixes cfg). prefix p key)))
       \<and> (\<forall>key. dict_has (filter_upstream data cfg) key \<longrightarrow>
            dict_get (filter_upstream data cfg) key = dict_get data key)
       \<and> distinct (map fst (filter_upstream data cfg))"
proof (intro conjI allI impI)
  let ?P = "keep_key (cfg_prefixes cfg) (cfg_excludes cfg)"
  have eq: "filter_upstream data cfg = filter (\<lambda>(key, v). ?P key) data"
    by (rule filter_upstream_eq [OF assms])
  show "dict_has (filter_upstream data cfg) key \<longleftrightarrow>
          dict_has data key
          \<and> \<not> (\<exists>pat \<in> set (cfg_excludes cfg). sublist pat key)
          \<and> (cfg_prefixes cfg = [] \<or> (\<exists>p \<in> set (cfg_prefixes cfg). prefix p key))" for key
    unfolding eq dict_has_filter_keys keep_key_iff by blast
  show "dict_get (filter_upstream data cfg) key = dict_get data key"
    if "dict_has (filter_upstream data cfg) key" for key
  proof -
    from that have "?P key" unfolding eq dict_has_filter_keys by blast
    then show ?thesis unfolding eq by (rule dict_get_filter_keys)
  qed
  show "distinct (map fst (filter_upstream data cfg))"
    unfolding eq using assms by (simp add: distinct_map_filter)
qed

theorem filter_upstream_policy_witness:
  "distinct (map fst example_upstream)
   \<and> dict_has (filter_upstream example_upstream example_config) ''gpt-3''
   \<and> \<not> dict_has (filter_upstream example_upstream example_config) ''claude-x''
   \<and> dict_get (filter_upstream example_upstream example_config) ''gpt-4''
       = Some (JDict [(''cost'', JNum (NInt 2))])"
proof -
  have d: "distinct (map fst example_upstream)"
    by (simp add: example_upstream_def)
  have pre: "cfg_prefixes example_config = [''gpt-'']" "cfg_excludes example_config = []"
    by (simp_all add: cfg_prefixes_def cfg_excludes_def example_config_def)
  note pol = filter_upstream_policy [OF d, of example_config, unfolded pre]
  have has: "dict_has example_upstream key" if "key \<in> {''gpt-4'', ''gpt-3'', ''claude-x''}" for key
    using that by (auto simp: dict_has_def example_upstream_def)
  have h3: "dict_has (filter_upstream example_upstream example_config) ''gpt-3''"
    using pol has by simp
  have h4: "dict_has (filter_upstream example_upstream example_config) ''gpt-4''"
    using pol has by simp
  have hx: "\<not> dict_has (filter_upstream example_upstream example_config) ''claude-x''"
    using pol by simp
  have "dict_get (filter_upstream example_upstream example_config) ''gpt-4''
          = dict_get example_upstream ''gpt-4''"
    using pol h4 by blast
  then have g4: "dict_get (filter_upstream example_upstream example_config) ''gpt-4''
          = Some (JDict [(''cost'', JNum (NInt 2))])"
    by (simp add: dict_get_def example_upstream_def)
  from d h3 hx g4 show ?thesis by blast
qed

subsection \<open>Merge\<close>

lemma merge_step_count:
  "merge_step upd item (m, st) = (m1, st1) \<Longrightarrow>
     added st1 + updated st1 + unchanged st1 = added st + updated st + unchanged st + 1
     \<and> total_upstream st1 = total_upstream st"
  by (cases item) (auto split: option.splits if_splits)

lemma merge_loop_count:
  "merge_loop upd filtered (m, st) = (m', st') \<Longrightarrow>
   added st' + updated st' + unchanged st' = added st + updated st + unchanged st + length filtered
   \<and> total_upstream st' = total_upstream st"
proof (induction filtered arbitrary: m st)
  case Nil
  then show ?case by simp
next
  case (Cons item filtered)
  obtain m1 st1 where step: "merge_step upd item (m, st) = (m1, st1)"
    by (cases "merge_step upd item (m, st)")
  from Cons.prems step have "merge_loop upd filtered (m1, st1) = (m', st')"
    by simp
  from Cons.IH [OF this] merge_step_count [OF step] show ?case by simp
qed

lemma merge_loop_keep:
  "distinct (map fst filtered) \<Longrightarrow>
   merge_loop False filtered (m, st) =
     (m @ filter (\<lambda>(key, v). \<not> dict_has m key) filtered,
      st\<lparr>added := added st + length (filter (\<lambda>(key, v). \<not> dict_has m key) filtered),
         unchanged := unchanged st + length (filter (\<lambda>(key, v). dict_has m key) filtered)\<rparr>)"
proof (induction filtered arbitrary: m st)
  case Nil
  then show ?case by simp
next
  case (Cons kv filtered)
  obtain k v where kv: "kv = (k, v)" by (cases kv)
  from Cons.prems have d: "distinct (map fst filtered)" and nk: "k \<notin> fst ` set filtered"
    by (auto simp: kv)
  show ?case
  proof (cases "dict_has m k")
    case True
    then obtain old where "dict_get m k = Some old"
      by (auto simp: dict_has_def dict_get_def)
    with True Cons.IH [OF d] show ?thesis by (simp add: kv)
  next
    case False
    then have none: "dict_get m k = None" and fresh: "k \<notin> fst ` set m"
      by (auto simp: dict_has_def dict_get_def map_of_eq_None_iff)
    have same: "dict_has (m @ [(k, v)]) (fst kv') = dict_has m (fst kv')"
      if "kv' \<in> set filtered" for kv'
      using nk that by (auto simp: dict_has_keys)
    have f1: "filter (\<lambda>(key, v'). \<not> dict_has (m @ [(k, v)]) key) filtered
            = filter (\<lambda>(key, v'). \<not> dict_has m key) filtered"
      by (rule filter_cong) (use same in \<open>auto simp: case_prod_beta\<close>)
    have f2: "filter (\<lambda>(key, v'). dict_has (m @ [(k, v)]) key) filtered
            = filter (\<lambda>(key, v'). dict_has m key) filtered"
      by (rule filter_cong) (use same in \<open>auto simp: case_prod_beta\<close>)
    from False none Cons.IH [OF d] show ?thesis
      by (simp add: kv dict_set_def update_fresh [OF fresh] f1 f2)
  qed
qed



text \<open>
  C3. In additive mode without \<^verbatim>\<open>update_existing\<close>, for a filtered catalog with
  distinct keys, the merge returns the existing catalog followed by the filtered
  entries whose key it lacks: a key of the existing catalog keeps its value, a filtered
  key absent from it comes in with the filtered value and counts as added, and a
  filtered key present in it counts as unchanged.
\<close>

theorem merge_additive_keeps_existing:
  assumes "distinct (map fst filtered)"
  shows "merge_models existing filtered ''additive'' False =
           (existing @ filter (\<lambda>(key, v). \<not> dict_has existing key) filtered,
            \<lparr>added = length (filter (\<lambda>(key, v). \<not> dict_has existing key) filtered),
             updated = 0,
             unchanged = length (filter (\<lambda>(key, v). dict_has existing key) filtered),
             total_upstream = length filtered\<rparr>)
       \<and> (\<forall>key. dict_get (fst (merge_models existing filtered ''additive'' False)) key =
            (case dict_get existing key of
               Some v \<Rightarrow> Some v
             | None \<Rightarrow> dict_get filtered key))"
proof -
  let ?new = "filter (\<lambda>(key, v). \<not> dict_has existing key) filtered"
  have eq: "merge_models existing filtered ''additive'' False =
           (existing @ ?new,
            \<lparr>added = length ?new, updated = 0,
             unchanged = length (filter (\<lambda>(key, v). dict_has existing key) filtered),
             total_upstream = length filtered\<rparr>)"
    by (simp add: merge_models_def merge_loop_keep [OF assms])
  have "dict_get (existing @ ?new) key =
          (case dict_get existing key of Some v \<Rightarrow> Some v | None \<Rightarrow> dict_get filtered key)" for key
  proof (cases "dict_get existing key")
    case None
    then have "\<not> dict_has existing key" by (simp add: dict_has_def dict_get_def)
    then have "dict_get ?new key = dict_get filtered key"
      by (rule dict_get_filter_keys [where P = "\<lambda>k. \<not> dict_has existing k"])
    with None show ?thesis by (simp add: dict_get_def map_add_def)
  next
    case (Some v)
    then show ?thesis by (simp add: dict_get_def map_add_def)
  qed
  with eq show ?thesis by simp
qed

theorem merge_additive_keeps_existing_witness:
  "distinct (map fst [(''gpt-4'', JNum (NInt 2)), (''gpt-3'', JNum (NInt 5))])
   \<and> merge_models [(''gpt-4'', JNum (NInt 1))]
        [(''gpt-4'', JNum (NInt 2)), (''gpt-3'', JNum (NInt 5))] ''additive'' False =
       ([(''gpt-4'', JNum (NInt 1)), (''gpt-3'', JNum (NInt 5))],
        \<lparr>added = 1, updated = 0, unchanged = 1, total_upstream = 2\<rparr>)"
proof -
  have d: "distinct (map fst [(''gpt-4'', JNum (NInt 2)), (''gpt-3'', JNum (NInt 5))])"
    by simp
  from merge_additive_keeps_existing [OF d, of "[(''gpt-4'', JNum (NInt 1))]"] d
  show ?thesis by (simp add: dict_has_def)
qed

text \<open>
  C9. In additive mode, whatever \<^verbatim>\<open>update_existing\<close> is, the three counters of the
  statistics add up to \<^verbatim>\<open>total_upstream\<close>, which is the number of entries of the
  filtered catalog: each entry is counted once.
\<close>

theorem merge_additive_stats_total:
  "added (snd (merge_models existing filtered ''additive'' upd))
     + updated (snd (merge_models existing filtered ''additive'' upd))
     + unchanged (snd (merge_models existing filtered ''additive'' upd))
     = total_upstream (snd (merge_models existing filtered ''additive'' upd))
   \<and> total_upstream (snd (merge_models existing filtered ''additive'' upd)) = length filtered"
proof -
  let ?st0 = "\<lparr>added = 0, updated = 0, unchanged = 0, total_upstream = length filtered\<rparr>"
  obtain m st where r: "merge_loop upd filtered (existing, ?st0) = (m, st)"
    by (cases "merge_loop upd filtered (existing, ?st0)")
  from merge_loop_count [OF r] have "added st + updated st + unchanged st = length filtered"
    and "total_upstream st = length filtered" by simp_all
  moreover from r have "snd (merge_models existing filtered ''additive'' upd) = st"
    by (simp add: merge_models_def)
  ultimately show ?thesis by simp
qed

text \<open>
  C1, as the specification states it, fails: \<^verbatim>\<open>gpt-3\<close> starts with the prefix
  \<^verbatim>\<open>gpt-\<close>, so the filter keeps it and the merge adds it.
\<close>

theorem example_end_to_end_counterexample:
  "\<not> (fst (filter_then_merge example_config example_existing example_upstream)
         = [(''gpt-4'', JDict [(''cost'', JNum (NInt 2))])]
       \<and> fst (snd (filter_then_merge example_config example_existing example_upstream))
         = [(''gpt-4'', JDict [(''cost'', JNum (NInt 2))])]
       \<and> added (snd (snd (filter_then_merge example_config example_existing example_upstream))) = 0
       \<and> updated (snd (snd (filter_then_merge example_config example_existing example_upstream))) = 1
       \<and> unchanged (snd (snd (filter_then_merge example_config example_existing example_upstream))) = 0)"
  by (simp add: filter_then_merge_def filter_upstream_def cfg_prefixes_def cfg_excludes_def
      example_config_def example_upstream_def keep_key_def dict_set_def Let_def)

text \<open>
  C1, amended. In the end-to-end example the filter returns \<^verbatim>\<open>gpt-4\<close> and \<^verbatim>\<open>gpt-3\<close>
  with their upstream values and drops \<^verbatim>\<open>claude-x\<close>; the merge returns \<^verbatim>\<open>gpt-4\<close> with
  the upstream value and \<^verbatim>\<open>gpt-3\<close>, with one entry added, one updated and none
  unchanged.
\<close>

theorem example_end_to_end:
  "filter_then_merge example_config example_existing example_upstream =
     ([(''gpt-4'', JDict [(''cost'', JNum (NInt 2))]),
       (''gpt-3'', JDict [(''cost'', JNum (NFloat (FFin False 4503599627370496 (- 53))))])],
      [(''gpt-4'', JDict [(''cost'', JNum (NInt 2))]),
       (''gpt-3'', JDict [(''cost'', JNum (NFloat (FFin False 4503599627370496 (- 53))))])],
      \<lparr>added = 1, updated = 1, unchanged = 0, total_upstream = 2\<rparr>)"
  by (simp add: filter_then_merge_def filter_upstream_def cfg_prefixes_def cfg_excludes_def
      example_config_def example_existing_def example_upstream_def keep_key_def dict_set_def
      dict_get_def merge_models_def py_ne_def Let_def)

text \<open>
  C4. In \<^verbatim>\<open>full\<close> mode the merge returns the filtered catalog itself, whatever the
  existing catalog holds, and the statistics count every filtered entry as added and
  none as updated or unchanged.
\<close>

theorem merge_full_verbatim:
  "merge_models existing filtered ''full'' upd =
     (filtered, \<lparr>added = length filtered, updated = 0, unchanged = 0,
                 total_upstream = length filtered\<rparr>)"
  by (simp add: merge_models_def)

end
